theory Spec2Isabelle
  imports Complex_Main
begin

section \<open>Dinosaur Tower Defense: the simulation core of main.js\<close>

text \<open>
  A shallow embedding of the enemy, projectile and wave code of
  \<^verbatim>\<open>tower-defense-game/main.js\<close>. JavaScript numbers are modelled as
  \<^typ>\<open>real\<close> (counters that only ever hold integers as \<^typ>\<open>int\<close> or
  \<^typ>\<open>nat\<close>); \<^verbatim>\<open>NaN\<close> and \<^verbatim>\<open>Infinity\<close> arguments are outside the model.
  Positions, health and timers are computed over the reals. The wave size,
  which \<^verbatim>\<open>Math.floor\<close> and \<^verbatim>\<open>Math.round\<close> cut to an integer, is computed
  with the multiplication of IEEE 754 doubles. The module-level variables \<^verbatim>\<open>money\<close>, \<^verbatim>\<open>lives\<close>, \<^verbatim>\<open>wave\<close>,
  \<^verbatim>\<open>gameSpeed\<close>, \<^verbatim>\<open>spawning\<close>, \<^verbatim>\<open>mapModifiers\<close> and the settings the
  code reads are the fields of the record \<open>game\<close>, which every method that
  touches them takes and returns.
\<close>

subsection \<open>Numeric helpers\<close>

text \<open>\<^verbatim>\<open>Math.hypot(a, b)\<close>.\<close>

definition hypot :: "real \<Rightarrow> real \<Rightarrow> real" where
  "hypot a b = sqrt (a * a + b * b)"

text \<open>\<^verbatim>\<open>Math.round\<close>: the nearest integer, halves towards plus infinity.\<close>

definition Math_round :: "real \<Rightarrow> int" where
  "Math_round v = \<lfloor>v + 1 / 2\<rfloor>"






record point =
  pt_x :: real
  pt_y :: real

text \<open>
  \<^verbatim>\<open>function normalize(dx,dy){ const d=Math.hypot(dx,dy)||1; return {x:dx/d,y:dy/d}; }\<close>
\<close>

definition normalize :: "real \<Rightarrow> real \<Rightarrow> point" where
  "normalize dx dy =
     (let d = (if hypot dx dy = 0 then 1 else hypot dx dy)
      in \<lparr>pt_x = dx / d, pt_y = dy / d\<rparr>)"

text \<open>
  Reading an array: \<^verbatim>\<open>path[i]\<close> is \<^verbatim>\<open>undefined\<close> (here \<open>None\<close>) outside
  \<open>0 \<le> i < length\<close>.
\<close>

definition path_at :: "point list \<Rightarrow> int \<Rightarrow> point option" where
  "path_at p i = (if 0 \<le> i \<and> i < int (length p) then Some (p ! nat i) else None)"

subsection \<open>Shared state and settings\<close>

record modifiers =
  hpMult :: real
  speedMult :: real
  countMult :: real
  moneyMult :: real

text \<open>
  The globals. \<open>mapModifiers\<close> has no \<^verbatim>\<open>moneyMult\<close> in the source; that field
  of it is never read. \<open>stonkCount\<close> stands for
  \<^verbatim>\<open>towers.filter(t => t instanceof StonklodonTower).length\<close>.
\<close>

record game =
  money :: int
  lives :: int
  wave :: nat
  gameSpeed :: real
  spawning :: bool
  difficulty :: string
  waveReward :: int
  mapModifiers :: modifiers
  stonkCount :: nat
  canvasW :: real
  canvasH :: real

definition getDifficultyModifiers :: "game \<Rightarrow> modifiers" where
  "getDifficultyModifiers g =
     (if difficulty g = ''easy'' then
        \<lparr>hpMult = 0.7, speedMult = 0.8, countMult = 0.8, moneyMult = 1.3\<rparr>
      else if difficulty g = ''hard'' then
        \<lparr>hpMult = 1.3, speedMult = 1.2, countMult = 1.2, moneyMult = 0.8\<rparr>
      else if difficulty g = ''nightmare'' then
        \<lparr>hpMult = 1.6, speedMult = 1.4, countMult = 1.5, moneyMult = 0.6\<rparr>
      else
        \<lparr>hpMult = 1.0, speedMult = 1.0, countMult = 1.0, moneyMult = 1.0\<rparr>)"

subsection \<open>Enemy\<close>

text \<open>
  The fields of \<^verbatim>\<open>class Enemy\<close>; \<^verbatim>\<open>id\<close>, \<^verbatim>\<open>x\<close> and \<^verbatim>\<open>y\<close> are
  \<open>eid\<close>, \<open>pos_x\<close> and \<open>pos_y\<close> here.
\<close>

record enemy =
  eid :: nat
  hp :: real
  maxHp :: real
  baseSpeed :: real
  radius :: real
  pathIndex :: nat
  path :: "point list"
  waypoint :: int
  pos_x :: real
  pos_y :: real
  alive :: bool
  segmentProgress :: real
  bleedDps :: real
  bleedTimer :: real
  slowFactor :: real
  slowTimer :: real
  stunTimer :: real

datatype error = TypeError

text \<open>
  The constructor. \<open>idseq\<close> is the value of \<^verbatim>\<open>ENEMY_ID_SEQ\<close> it consumes and
  \<open>pathIdx\<close> the path index, either passed in or drawn by
  \<^verbatim>\<open>selectPathByWeight()\<close>. Reading \<^verbatim>\<open>.x\<close> of a missing start point throws.
\<close>

definition Enemy_new :: "point list list \<Rightarrow> nat \<Rightarrow> real \<Rightarrow> real \<Rightarrow> nat \<Rightarrow> error + enemy" where
  "Enemy_new paths idseq hp0 speed pathIdx =
     (if pathIdx < length paths then
        (case paths ! pathIdx of
           [] \<Rightarrow> Inl TypeError
         | startPoint # _ \<Rightarrow>
             Inr \<lparr>eid = idseq, hp = hp0, maxHp = hp0, baseSpeed = speed, radius = 10,
                  pathIndex = pathIdx, path = paths ! pathIdx, waypoint = 0,
                  pos_x = pt_x startPoint, pos_y = pt_y startPoint, alive = True,
                  segmentProgress = 0,
                  bleedDps = 0, bleedTimer = 0, slowFactor = 1, slowTimer = 0,
                  stunTimer = 0\<rparr>)
      else Inl TypeError)"

definition nextTarget :: "enemy \<Rightarrow> point option" where
  "nextTarget e = path_at (path e) (waypoint e + 1)"

definition currentWaypoint :: "enemy \<Rightarrow> point option" where
  "currentWaypoint e = path_at (path e) (waypoint e)"

definition applyBleed :: "real \<Rightarrow> real \<Rightarrow> enemy \<Rightarrow> enemy" where
  "applyBleed dps duration e =
     e\<lparr>bleedDps := max (bleedDps e) dps, bleedTimer := max (bleedTimer e) duration\<rparr>"

definition applySlow :: "real \<Rightarrow> real \<Rightarrow> enemy \<Rightarrow> enemy" where
  "applySlow factor duration e =
     e\<lparr>slowFactor := min (slowFactor e) factor, slowTimer := max (slowTimer e) duration\<rparr>"

definition applyStun :: "real \<Rightarrow> enemy \<Rightarrow> enemy" where
  "applyStun duration e = e\<lparr>stunTimer := max (stunTimer e) duration\<rparr>"

text \<open>
  \<^verbatim>\<open>die()\<close> and \<^verbatim>\<open>reachEnd()\<close> change the enemy and a global counter, so
  they map a pair of both.
\<close>

definition die :: "game \<times> enemy \<Rightarrow> game \<times> enemy" where
  "die s =
     (let g = fst s; e = snd s in
      if \<not> alive e then s
      else (g\<lparr>money := money g + Math_round (10 * moneyMult (getDifficultyModifiers g))\<rparr>,
            e\<lparr>alive := False\<rparr>))"

definition reachEnd :: "game \<times> enemy \<Rightarrow> game \<times> enemy" where
  "reachEnd s =
     (let g = fst s; e = snd s in
      if \<not> alive e then s
      else (g\<lparr>lives := lives g - 1\<rparr>, e\<lparr>alive := False\<rparr>))"

definition takeDamage :: "real \<Rightarrow> game \<times> enemy \<Rightarrow> game \<times> enemy" where
  "takeDamage d s =
     (let g = fst s; e = (snd s)\<lparr>hp := hp (snd s) - d\<rparr> in
      if hp e \<le> 0 then die (g, e) else (g, e))"

text \<open>
  \<^verbatim>\<open>knockback(distance)\<close>. It returns at once at waypoint 0. Reading a field
  of a missing path point throws; the branch under \<^verbatim>\<open>else\<close> at the end is kept
  as the source has it.
\<close>

definition knockback :: "real \<Rightarrow> enemy \<Rightarrow> error + enemy" where
  "knockback distance e =
     (if waypoint e \<le> 0 then Inr e
      else
        (case path_at (path e) (waypoint e) of
           None \<Rightarrow> Inl TypeError
         | Some a \<Rightarrow>
             let b = (case path_at (path e) (waypoint e + 1) of None \<Rightarrow> a | Some b' \<Rightarrow> b');
                 dir = normalize (pt_x b - pt_x a) (pt_y b - pt_y a);
                 newX = pos_x e - pt_x dir * distance;
                 newY = pos_y e - pt_y dir * distance
             in
               if waypoint e > 0 then
                 (case path_at (path e) (waypoint e - 1) of
                    None \<Rightarrow> Inl TypeError
                  | Some prev \<Rightarrow>
                      let distToPrev = hypot (newX - pt_x prev) (newY - pt_y prev);
                          distCurrToPrev = hypot (pt_x a - pt_x prev) (pt_y a - pt_y prev)
                      in
                        if distToPrev < distCurrToPrev then
                          let prevDir = normalize (pt_x a - pt_x prev) (pt_y a - pt_y prev);
                              remainingDist = distance - hypot (pos_x e - pt_x a) (pos_y e - pt_y a)
                          in Inr (e\<lparr>waypoint := waypoint e - 1,
                                    pos_x := pt_x a - pt_x prevDir * min remainingDist (distCurrToPrev * 0.9),
                                    pos_y := pt_y a - pt_y prevDir * min remainingDist (distCurrToPrev * 0.9)\<rparr>)
                        else Inr (e\<lparr>pos_x := newX, pos_y := newY\<rparr>))
               else
                 let maxBack = hypot (pos_x e - pt_x a) (pos_y e - pt_y a) * 0.9;
                     actualDist = min distance maxBack
                 in Inr (e\<lparr>pos_x := pos_x e - pt_x dir * actualDist,
                           pos_y := pos_y e - pt_y dir * actualDist\<rparr>)))"

definition validatePosition :: "enemy \<Rightarrow> enemy" where
  "validatePosition e =
     (case currentWaypoint e of
        None \<Rightarrow> e
      | Some cur \<Rightarrow>
          (case nextTarget e of
             None \<Rightarrow> e
           | Some nxt \<Rightarrow>
               let segX = pt_x nxt - pt_x cur;
                   segY = pt_y nxt - pt_y cur;
                   segLenSq = segX * segX + segY * segY
               in
                 if segLenSq > 0 then
                   let t = max 0 (min 1
                             (((pos_x e - pt_x cur) * segX + (pos_y e - pt_y cur) * segY) / segLenSq));
                       projX = pt_x cur + t * segX;
                       projY = pt_y cur + t * segY;
                       distFromPath = hypot (pos_x e - projX) (pos_y e - projY)
                   in if distFromPath > 5 then e\<lparr>pos_x := projX, pos_y := projY\<rparr> else e
                 else e))"

text \<open>
  The movement half of \<^verbatim>\<open>update(dt)\<close>, from \<^verbatim>\<open>const target = this.nextTarget\<close>
  to the call of \<^verbatim>\<open>validatePosition()\<close>.
\<close>

definition Enemy_move :: "real \<Rightarrow> game \<times> enemy \<Rightarrow> game \<times> enemy" where
  "Enemy_move dt s =
     (let g = fst s; e = snd s in
      case nextTarget e of
        None \<Rightarrow> (if waypoint e \<ge> int (length (path e)) - 1 then reachEnd s else s)
      | Some target \<Rightarrow>
          let dx = pt_x target - pos_x e;
              dy = pt_y target - pos_y e;
              distToTarget = hypot dx dy;
              speed = baseSpeed e * slowFactor e * gameSpeed g;
              moveDistance = speed * dt
          in
            if distToTarget \<le> moveDistance + 2 then
              let e1 = e\<lparr>pos_x := pt_x target, pos_y := pt_y target, waypoint := waypoint e + 1\<rparr>
              in
                if waypoint e1 \<ge> int (length (path e1)) - 1 then reachEnd (g, e1)
                else
                  let remainingMove = moveDistance - distToTarget;
                      e2 = (if remainingMove > 0 then
                              (case nextTarget e1 of
                                 None \<Rightarrow> e1
                               | Some newTarget \<Rightarrow>
                                   let ndx = pt_x newTarget - pos_x e1;
                                       ndy = pt_y newTarget - pos_y e1;
                                       ndist = hypot ndx ndy
                                   in if ndist > 0 then
                                        e1\<lparr>pos_x := pos_x e1 + (ndx / ndist) * min remainingMove ndist,
                                           pos_y := pos_y e1 + (ndy / ndist) * min remainingMove ndist\<rparr>
                                      else e1)
                            else e1)
                  in (g, validatePosition e2)
            else
              (g, validatePosition
                    (e\<lparr>pos_x := pos_x e + (dx / distToTarget) * moveDistance,
                       pos_y := pos_y e + (dy / distToTarget) * moveDistance\<rparr>)))"

text \<open>\<^verbatim>\<open>update(dt)\<close>: bleed, slow decay, stun, then movement.\<close>

definition Enemy_update :: "real \<Rightarrow> game \<times> enemy \<Rightarrow> game \<times> enemy" where
  "Enemy_update dt s =
     (let g = fst s; e = snd s in
      if \<not> alive e then s
      else
        let e1 = (if bleedTimer e > 0 then
                    let b = e\<lparr>hp := hp e - bleedDps e * dt, bleedTimer := bleedTimer e - dt\<rparr>
                    in (if bleedTimer b \<le> 0 then b\<lparr>bleedDps := 0\<rparr> else b)
                  else e)
        in
          if bleedTimer e > 0 \<and> hp e1 \<le> 0 then die (g, e1)
          else
            let e2 = (if slowTimer e1 > 0 then
                        let sl = e1\<lparr>slowTimer := slowTimer e1 - dt\<rparr>
                        in (if slowTimer sl \<le> 0 then sl\<lparr>slowFactor := 1\<rparr> else sl)
                      else e1)
            in
              if stunTimer e2 > 0 then (g, e2\<lparr>stunTimer := stunTimer e2 - dt\<rparr>)
              else Enemy_move dt (g, e2))"

text \<open>A sequence of calls on one enemy, each a method of the class.\<close>

datatype enemy_call =
    CallTakeDamage real
  | CallUpdate real
  | CallDie
  | CallApplyBleed real real
  | CallApplySlow real real
  | CallApplyStun real

fun run_call :: "enemy_call \<Rightarrow> game \<times> enemy \<Rightarrow> game \<times> enemy" where
  "run_call (CallTakeDamage d) s = takeDamage d s"
| "run_call (CallUpdate dt) s = Enemy_update dt s"
| "run_call CallDie s = die s"
| "run_call (CallApplyBleed dps duration) s = (fst s, applyBleed dps duration (snd s))"
| "run_call (CallApplySlow factor duration) s = (fst s, applySlow factor duration (snd s))"
| "run_call (CallApplyStun duration) s = (fst s, applyStun duration (snd s))"

fun run_calls :: "enemy_call list \<Rightarrow> game \<times> enemy \<Rightarrow> game \<times> enemy" where
  "run_calls [] s = s"
| "run_calls (c # cs) s = run_calls cs (run_call c s)"

text \<open>The status invariant of the data model.\<close>

definition status_inv :: "enemy \<Rightarrow> bool" where
  "status_inv e \<longleftrightarrow>
     (bleedTimer e \<le> 0 \<longrightarrow> bleedDps e = 0) \<and> (slowTimer e \<le> 0 \<longrightarrow> slowFactor e = 1)"

subsection \<open>Area pool\<close>

record acidPool =
  pool_x :: real
  pool_y :: real
  pool_radius :: real
  pool_timer :: real
  pool_dps :: real
  pool_slow :: real
  pool_alive :: bool

text \<open>The body of the loop over \<^verbatim>\<open>enemies\<close> in \<^verbatim>\<open>AcidPool.update\<close>.\<close>

definition AcidPool_touch :: "acidPool \<Rightarrow> real \<Rightarrow> game \<times> enemy \<Rightarrow> game \<times> enemy" where
  "AcidPool_touch p dt s =
     (let g = fst s; e = snd s in
      if \<not> alive e then s
      else
        let d = hypot (pos_x e - pool_x p) (pos_y e - pool_y p) in
        if d \<le> pool_radius p then
          let e1 = applySlow (pool_slow p) 0.5 e;
              e2 = e1\<lparr>hp := hp e1 - pool_dps p * dt\<rparr>
          in (if hp e2 \<le> 0 then die (g, e2) else (g, e2))
        else s)"

fun AcidPool_loop :: "acidPool \<Rightarrow> real \<Rightarrow> game \<Rightarrow> enemy list \<Rightarrow> game \<times> enemy list" where
  "AcidPool_loop p dt g [] = (g, [])"
| "AcidPool_loop p dt g (e # es) =
     (let s1 = AcidPool_touch p dt (g, e);
          r = AcidPool_loop p dt (fst s1) es
      in (fst r, snd s1 # snd r))"

definition AcidPool_update :: "real \<Rightarrow> game \<times> acidPool \<times> enemy list \<Rightarrow> game \<times> acidPool \<times> enemy list" where
  "AcidPool_update dt s =
     (let g = fst s; p = fst (snd s); enemies = snd (snd s) in
      if \<not> pool_alive p then s
      else
        let p1 = p\<lparr>pool_timer := pool_timer p - dt\<rparr> in
        if pool_timer p1 \<le> 0 then (g, p1\<lparr>pool_alive := False\<rparr>, enemies)
        else
          let r = AcidPool_loop p1 dt g enemies in (fst r, p1, snd r))"

subsection \<open>Pierce bolt\<close>

record spikeProjectile =
  sp_x :: real
  sp_y :: real
  sp_angle :: real
  sp_speed :: real
  sp_damage :: real
  sp_pierce :: int
  sp_alive :: bool

text \<open>\<open>e\<close> is alive and within \<^verbatim>\<open>e.radius+4\<close> of the bolt.\<close>

definition spike_contact :: "spikeProjectile \<Rightarrow> enemy \<Rightarrow> bool" where
  "spike_contact sp e \<longleftrightarrow>
     alive e \<and> hypot (pos_x e - sp_x sp) (pos_y e - sp_y sp) < radius e + 4"

text \<open>
  The loop over \<^verbatim>\<open>enemies\<close> in \<^verbatim>\<open>SpikeProjectile.update\<close>; \<^verbatim>\<open>break\<close>
  leaves the rest of the list as it is.
\<close>

fun SpikeProjectile_loop ::
  "game \<Rightarrow> spikeProjectile \<Rightarrow> enemy list \<Rightarrow> game \<times> spikeProjectile \<times> enemy list" where
  "SpikeProjectile_loop g sp [] = (g, sp, [])"
| "SpikeProjectile_loop g sp (e # es) =
     (if \<not> alive e then
        (let r = SpikeProjectile_loop g sp es in (fst r, fst (snd r), e # snd (snd r)))
      else if hypot (pos_x e - sp_x sp) (pos_y e - sp_y sp) < radius e + 4 then
        (let s1 = takeDamage (sp_damage sp) (g, e);
             sp1 = sp\<lparr>sp_pierce := sp_pierce sp - 1\<rparr>
         in if sp_pierce sp1 \<le> 0 then (fst s1, sp1\<lparr>sp_alive := False\<rparr>, snd s1 # es)
            else (let r = SpikeProjectile_loop (fst s1) sp1 es
                  in (fst r, fst (snd r), snd s1 # snd (snd r))))
      else
        (let r = SpikeProjectile_loop g sp es in (fst r, fst (snd r), e # snd (snd r))))"

text \<open>The bolt after the move that begins \<^verbatim>\<open>update(dt)\<close>.\<close>

definition spike_advance :: "real \<Rightarrow> game \<Rightarrow> spikeProjectile \<Rightarrow> spikeProjectile" where
  "spike_advance dt g sp =
     (let step = sp_speed sp * dt * gameSpeed g
      in sp\<lparr>sp_x := sp_x sp + cos (sp_angle sp) * step,
            sp_y := sp_y sp + sin (sp_angle sp) * step\<rparr>)"

definition SpikeProjectile_update ::
  "real \<Rightarrow> game \<times> spikeProjectile \<times> enemy list \<Rightarrow> game \<times> spikeProjectile \<times> enemy list" where
  "SpikeProjectile_update dt s =
     (let g = fst s; sp = fst (snd s); enemies = snd (snd s) in
      if \<not> sp_alive sp then s
      else
        let sp1 = spike_advance dt g sp;
            r = SpikeProjectile_loop g sp1 enemies;
            sp2 = fst (snd r);
            sp3 = (if sp_x sp2 < - 40 \<or> sp_x sp2 > canvasW g + 40
                      \<or> sp_y sp2 < - 40 \<or> sp_y sp2 > canvasH g + 40
                   then sp2\<lparr>sp_alive := False\<rparr> else sp2)
        in (fst r, sp3, snd (snd r)))"

subsection \<open>Targeting\<close>

text \<open>
  \<^verbatim>\<open>findNearestEnemy(x,y,range,enemies)\<close>, with \<open>rng\<close> for \<^verbatim>\<open>range\<close>. \<open>bestD = None\<close> is the initial
  \<^verbatim>\<open>Infinity\<close>, below which every distance lies.
\<close>

fun findNearestEnemy_loop ::
  "real \<Rightarrow> real \<Rightarrow> real \<Rightarrow> enemy list \<Rightarrow> enemy option \<Rightarrow> real option \<Rightarrow> enemy option" where
  "findNearestEnemy_loop x y rng [] best bestD = best"
| "findNearestEnemy_loop x y rng (e # es) best bestD =
     (if \<not> alive e then findNearestEnemy_loop x y rng es best bestD
      else
        let d = hypot (pos_x e - x) (pos_y e - y) in
        if d \<le> rng \<and> (case bestD of None \<Rightarrow> True | Some bd \<Rightarrow> d < bd)
        then findNearestEnemy_loop x y rng es (Some e) (Some d)
        else findNearestEnemy_loop x y rng es best bestD)"

definition findNearestEnemy :: "real \<Rightarrow> real \<Rightarrow> real \<Rightarrow> enemy list \<Rightarrow> enemy option" where
  "findNearestEnemy x y rng enemies = findNearestEnemy_loop x y rng enemies None None"

text \<open>The distance the search measures, and the enemies it may return.\<close>

definition enemy_dist :: "real \<Rightarrow> real \<Rightarrow> enemy \<Rightarrow> real" where
  "enemy_dist x y e = hypot (pos_x e - x) (pos_y e - y)"

definition in_reach :: "real \<Rightarrow> real \<Rightarrow> real \<Rightarrow> enemy \<Rightarrow> bool" where
  "in_reach x y rng e \<longleftrightarrow> alive e \<and> enemy_dist x y e \<le> rng"

subsection \<open>Wave spawner\<close>




text \<open>The currency \<^verbatim>\<open>die()\<close> awards: \<^verbatim>\<open>Math.round(10 * diffMods.moneyMult)\<close>.\<close>

definition death_reward :: "game \<Rightarrow> int" where
  "death_reward g = Math_round (10 * moneyMult (getDifficultyModifiers g))"

text \<open>What one call may do to the money counter and the alive flag.\<close>

definition pays_at_most_once :: "game \<times> enemy \<Rightarrow> game \<times> enemy \<Rightarrow> bool" where
  "pays_at_most_once s s' \<longleftrightarrow>
     difficulty (fst s') = difficulty (fst s)
     \<and> (\<not> alive (snd s) \<longrightarrow> \<not> alive (snd s') \<and> money (fst s') = money (fst s))
     \<and> (money (fst s') = money (fst s)
        \<or> alive (snd s) \<and> \<not> alive (snd s')
          \<and> money (fst s') = money (fst s) + death_reward (fst s))"

subsection \<open>Sample data\<close>

definition sample_path :: "point list" where
  "sample_path = [\<lparr>pt_x = 0, pt_y = 0\<rparr>, \<lparr>pt_x = 100, pt_y = 0\<rparr>, \<lparr>pt_x = 100, pt_y = 100\<rparr>]"

definition sample_game :: game where
  "sample_game = \<lparr>money = 100, lives = 20, wave = 4, gameSpeed = 1, spawning = False,
                   difficulty = ''normal'', waveReward = 25,
                   mapModifiers = \<lparr>hpMult = 1, speedMult = 1, countMult = 1, moneyMult = 1\<rparr>,
                   stonkCount = 0, canvasW = 960, canvasH = 540\<rparr>"

definition sample_enemy :: enemy where
  "sample_enemy = \<lparr>eid = 1, hp = 30, maxHp = 30, baseSpeed = 50, radius = 10, pathIndex = 0,
                    path = sample_path, waypoint = 0, pos_x = 0, pos_y = 0, alive = True,
                    segmentProgress = 0, bleedDps = 0, bleedTimer = 0, slowFactor = 1,
                    slowTimer = 0, stunTimer = 0\<rparr>"


text \<open>Half-way along the first segment, still at waypoint 0.\<close>

definition enemy_on_first_segment :: enemy where
  "enemy_on_first_segment = sample_enemy\<lparr>pos_x := 50\<rparr>"

text \<open>Stunned, slowed and bleeding, with less health than the next bleed tick takes.\<close>

definition enemy_bleeding_out :: enemy where
  "enemy_bleeding_out =
     sample_enemy\<lparr>hp := 1, bleedDps := 10, bleedTimer := 1, slowFactor := 1 / 2,
                  slowTimer := 1, stunTimer := 1\<rparr>"

text \<open>Stunned, slowed and bleeding, with health to spare.\<close>

definition enemy_stunned :: enemy where
  "enemy_stunned =
     sample_enemy\<lparr>bleedDps := 4, bleedTimer := 2, slowFactor := 1 / 2,
                  slowTimer := 1, stunTimer := 1\<rparr>"

text \<open>On the last segment, one pixel before the final point of the path.\<close>

definition enemy_near_end :: enemy where
  "enemy_near_end = sample_enemy\<lparr>waypoint := 1, pos_x := 100, pos_y := 99\<rparr>"

text \<open>A paused game, a pool at the start of the path, an enemy one pixel before the first corner.\<close>

definition paused_game :: game where
  "paused_game = sample_game\<lparr>gameSpeed := 0\<rparr>"

definition sample_pool :: acidPool where
  "sample_pool = \<lparr>pool_x = 0, pool_y = 0, pool_radius = 40, pool_timer = 1, pool_dps = 5,
                   pool_slow = 3 / 5, pool_alive = True\<rparr>"

definition enemy_near_corner :: enemy where
  "enemy_near_corner = sample_enemy\<lparr>pos_x := 99\<rparr>"



text \<open>A bolt flying along the line on which three enemies stand close together.\<close>

definition sample_bolt :: spikeProjectile where
  "sample_bolt = \<lparr>sp_x = 100, sp_y = 100, sp_angle = 0, sp_speed = 520, sp_damage = 18,
                   sp_pierce = 2, sp_alive = True\<rparr>"

definition target_a :: enemy where
  "target_a = sample_enemy\<lparr>eid := 11, hp := 100, maxHp := 100, pos_x := 120, pos_y := 100\<rparr>"

definition target_b :: enemy where
  "target_b = sample_enemy\<lparr>eid := 12, hp := 100, maxHp := 100, pos_x := 125, pos_y := 100\<rparr>"

definition target_c :: enemy where
  "target_c = sample_enemy\<lparr>eid := 13, hp := 100, maxHp := 100, pos_x := 126, pos_y := 100\<rparr>"

definition bolt_targets :: "enemy list" where
  "bolt_targets = [target_a, target_b, target_c]"

text \<open>Targets around the origin: one dead, two at distance 3, one at distance 10.\<close>

definition target_dead :: enemy where
  "target_dead = sample_enemy\<lparr>eid := 21, pos_x := 1, alive := False\<rparr>"

definition target_east :: enemy where
  "target_east = sample_enemy\<lparr>eid := 22, pos_x := 3\<rparr>"

definition target_south :: enemy where
  "target_south = sample_enemy\<lparr>eid := 23, pos_y := 3\<rparr>"

definition target_far :: enemy where
  "target_far = sample_enemy\<lparr>eid := 24, pos_y := 10\<rparr>"

section \<open>Helper lemmas\<close>

lemma hypot_zero_right: "hypot a 0 = \<bar>a\<bar>"
  by (simp add: hypot_def)

lemma hypot_zero_left: "hypot 0 b = \<bar>b\<bar>"
  by (simp add: hypot_def)

lemma validatePosition_fields:
  "alive (validatePosition e) = alive e"
  "waypoint (validatePosition e) = waypoint e"
  "path (validatePosition e) = path e"
  "hp (validatePosition e) = hp e"
  "bleedDps (validatePosition e) = bleedDps e"
  "bleedTimer (validatePosition e) = bleedTimer e"
  "slowFactor (validatePosition e) = slowFactor e"
  "slowTimer (validatePosition e) = slowTimer e"
  "stunTimer (validatePosition e) = stunTimer e"
  by (simp_all add: validatePosition_def Let_def split: option.splits)

lemma die_cases:
  "die (g, e) = (g, e) \<and> \<not> alive e
   \<or> die (g, e) = (g\<lparr>money := money g + death_reward g\<rparr>, e\<lparr>alive := False\<rparr>) \<and> alive e"
  by (simp add: die_def death_reward_def)

lemma reachEnd_cases:
  "reachEnd (g, e) = (g, e) \<and> \<not> alive e
   \<or> reachEnd (g, e) = (g\<lparr>lives := lives g - 1\<rparr>, e\<lparr>alive := False\<rparr>) \<and> alive e"
  by (simp add: reachEnd_def)

text \<open>
  Movement either keeps the globals and the waypoint's range, or ends in
  \<open>reachEnd\<close> at the last point; it never touches health or status.
\<close>

lemma Enemy_move_cases:
  "(\<exists>e'. Enemy_move dt (g, e) = (g, e') \<and> alive e' = alive e \<and> path e' = path e
         \<and> hp e' = hp e \<and> bleedDps e' = bleedDps e \<and> bleedTimer e' = bleedTimer e
         \<and> slowFactor e' = slowFactor e \<and> slowTimer e' = slowTimer e \<and> stunTimer e' = stunTimer e
         \<and> (waypoint e' = waypoint e \<or> waypoint e' = waypoint e + 1 \<and> waypoint e' < int (length (path e)) - 1))
   \<or> (\<exists>e1. Enemy_move dt (g, e) = reachEnd (g, e1) \<and> alive e1 = alive e \<and> path e1 = path e
         \<and> hp e1 = hp e \<and> bleedDps e1 = bleedDps e \<and> bleedTimer e1 = bleedTimer e
         \<and> slowFactor e1 = slowFactor e \<and> slowTimer e1 = slowTimer e \<and> stunTimer e1 = stunTimer e
         \<and> waypoint e1 \<ge> int (length (path e)) - 1
         \<and> (waypoint e1 = waypoint e \<or> waypoint e1 = waypoint e + 1))"
  by (auto simp: Enemy_move_def Let_def validatePosition_fields split: option.splits)

lemma Enemy_update_dead: "\<not> alive e \<Longrightarrow> Enemy_update dt (g, e) = (g, e)"
  by (simp add: Enemy_update_def)

lemma status_inv_cong:
  "bleedDps e' = bleedDps e \<Longrightarrow> bleedTimer e' = bleedTimer e \<Longrightarrow>
   slowFactor e' = slowFactor e \<Longrightarrow> slowTimer e' = slowTimer e \<Longrightarrow>
   status_inv e' = status_inv e"
  by (simp add: status_inv_def)

lemma die_status:
  "bleedDps (snd (die s)) = bleedDps (snd s)"
  "bleedTimer (snd (die s)) = bleedTimer (snd s)"
  "slowFactor (snd (die s)) = slowFactor (snd s)"
  "slowTimer (snd (die s)) = slowTimer (snd s)"
  by (simp_all add: die_def Let_def)

lemma reachEnd_status:
  "bleedDps (snd (reachEnd s)) = bleedDps (snd s)"
  "bleedTimer (snd (reachEnd s)) = bleedTimer (snd s)"
  "slowFactor (snd (reachEnd s)) = slowFactor (snd s)"
  "slowTimer (snd (reachEnd s)) = slowTimer (snd s)"
  by (simp_all add: reachEnd_def Let_def)

lemma Enemy_move_status:
  "bleedDps (snd (Enemy_move dt (g, e))) = bleedDps e
   \<and> bleedTimer (snd (Enemy_move dt (g, e))) = bleedTimer e
   \<and> slowFactor (snd (Enemy_move dt (g, e))) = slowFactor e
   \<and> slowTimer (snd (Enemy_move dt (g, e))) = slowTimer e"
  using Enemy_move_cases[of dt g e]
  by (elim disjE exE conjE) (simp_all add: reachEnd_status)

lemma status_inv_new: "Enemy_new paths idseq hp0 speed pathIdx = Inr e \<Longrightarrow> status_inv e"
  by (auto simp: Enemy_new_def status_inv_def split: if_splits list.splits)

lemma status_inv_applyBleed:
  "status_inv e \<Longrightarrow> 0 < duration \<Longrightarrow> status_inv (applyBleed dps duration e)"
  by (auto simp: status_inv_def applyBleed_def)

lemma status_inv_applySlow:
  "status_inv e \<Longrightarrow> 0 < duration \<Longrightarrow> status_inv (applySlow factor duration e)"
  by (auto simp: status_inv_def applySlow_def)

lemma status_inv_applyStun: "status_inv e \<Longrightarrow> status_inv (applyStun duration e)"
  by (auto simp: status_inv_def applyStun_def)

lemma status_inv_knockback: "status_inv e \<Longrightarrow> knockback d e = Inr e' \<Longrightarrow> status_inv e'"
  by (auto simp: status_inv_def knockback_def Let_def split: if_splits option.splits)

lemma status_inv_die: "status_inv (snd (die (g, e))) = status_inv e"
  by (rule status_inv_cong) (simp_all add: die_status)

lemma status_inv_takeDamage: "status_inv e \<Longrightarrow> status_inv (snd (takeDamage d (g, e)))"
  by (simp add: takeDamage_def Let_def status_inv_die) (simp add: status_inv_def)

lemma status_inv_move: "status_inv (snd (Enemy_move dt (g, e))) = status_inv e"
  by (rule status_inv_cong) (simp_all add: Enemy_move_status)

lemma status_inv_update: "status_inv e \<Longrightarrow> status_inv (snd (Enemy_update dt (g, e)))"
  by (simp add: Enemy_update_def Let_def status_inv_die status_inv_move)
     (simp add: status_inv_def)

subsection \<open>Doubles and the wave size\<close>

























subsection \<open>The bolt and its targets\<close>

lemma contact_a: "spike_contact (sample_bolt\<lparr>sp_x := 352 / 3\<rparr>) target_a"
  by (simp add: spike_contact_def sample_bolt_def target_a_def sample_enemy_def hypot_zero_right)

lemma contact_b: "spike_contact (sample_bolt\<lparr>sp_x := 352 / 3\<rparr>) target_b"
  by (simp add: spike_contact_def sample_bolt_def target_b_def sample_enemy_def hypot_zero_right)

lemma contact_c: "spike_contact (sample_bolt\<lparr>sp_x := 352 / 3\<rparr>) target_c"
  by (simp add: spike_contact_def sample_bolt_def target_c_def sample_enemy_def hypot_zero_right)

subsection \<open>The nearest-enemy loop\<close>

lemma findNearestEnemy_loop_Cons:
  "findNearestEnemy_loop x y rng (a # es) best bestD =
     (if in_reach x y rng a \<and> (\<forall>bd. bestD = Some bd \<longrightarrow> enemy_dist x y a < bd)
      then findNearestEnemy_loop x y rng es (Some a) (Some (enemy_dist x y a))
      else findNearestEnemy_loop x y rng es best bestD)"
  by (auto simp: in_reach_def enemy_dist_def Let_def split: option.splits)

lemma findNearestEnemy_loop_spec:
  "(findNearestEnemy_loop x y rng es best bestD = best
      \<and> (\<forall>a\<in>set es. in_reach x y rng a \<longrightarrow> (\<exists>bd. bestD = Some bd \<and> bd \<le> enemy_dist x y a)))
   \<or> (\<exists>pre e post. es = pre @ e # post
         \<and> findNearestEnemy_loop x y rng es best bestD = Some e
         \<and> in_reach x y rng e
         \<and> (\<forall>bd. bestD = Some bd \<longrightarrow> enemy_dist x y e < bd)
         \<and> (\<forall>a\<in>set pre. in_reach x y rng a \<longrightarrow> enemy_dist x y e < enemy_dist x y a)
         \<and> (\<forall>a\<in>set post. in_reach x y rng a \<longrightarrow> enemy_dist x y e \<le> enemy_dist x y a))"
  (is "?keep es best bestD \<or> ?pick es best bestD")
proof (induction es arbitrary: best bestD)
  case Nil
  then show ?case by simp
next
  case (Cons a es)
  show ?case
  proof (cases "in_reach x y rng a \<and> (\<forall>bd. bestD = Some bd \<longrightarrow> enemy_dist x y a < bd)")
    case True
    then have step: "findNearestEnemy_loop x y rng (a # es) best bestD
        = findNearestEnemy_loop x y rng es (Some a) (Some (enemy_dist x y a))"
      by (subst findNearestEnemy_loop_Cons) (rule if_P)
    from Cons.IH [of "Some a" "Some (enemy_dist x y a)"]
    show ?thesis
    proof
      assume k: "?keep es (Some a) (Some (enemy_dist x y a))"
      have "a # es = [] @ a # es" by simp
      with k step True have "?pick (a # es) best bestD"
        by (intro exI[of _ "[]"] exI[of _ a] exI[of _ es]) auto
      then show ?thesis ..
    next
      assume "?pick es (Some a) (Some (enemy_dist x y a))"
      then obtain pre e post where p: "es = pre @ e # post"
        "findNearestEnemy_loop x y rng es (Some a) (Some (enemy_dist x y a)) = Some e"
        "in_reach x y rng e" "enemy_dist x y e < enemy_dist x y a"
        "\<forall>a\<in>set pre. in_reach x y rng a \<longrightarrow> enemy_dist x y e < enemy_dist x y a"
        "\<forall>a\<in>set post. in_reach x y rng a \<longrightarrow> enemy_dist x y e \<le> enemy_dist x y a"
        by auto
      with step True have "?pick (a # es) best bestD"
        by (intro exI[of _ "a # pre"] exI[of _ e] exI[of _ post]) auto
      then show ?thesis ..
    qed
  next
    case False
    then have step: "findNearestEnemy_loop x y rng (a # es) best bestD
        = findNearestEnemy_loop x y rng es best bestD"
      by (subst findNearestEnemy_loop_Cons) (rule if_not_P)
    from False have far: "in_reach x y rng a \<Longrightarrow> \<exists>bd. bestD = Some bd \<and> bd \<le> enemy_dist x y a"
      by (cases bestD) auto
    from Cons.IH [of best bestD]
    show ?thesis
    proof
      assume "?keep es best bestD"
      with step far have "?keep (a # es) best bestD" by auto
      then show ?thesis ..
    next
      assume "?pick es best bestD"
      then obtain pre e post where p: "es = pre @ e # post"
        "findNearestEnemy_loop x y rng es best bestD = Some e"
        "in_reach x y rng e" "\<forall>bd. bestD = Some bd \<longrightarrow> enemy_dist x y e < bd"
        "\<forall>a\<in>set pre. in_reach x y rng a \<longrightarrow> enemy_dist x y e < enemy_dist x y a"
        "\<forall>a\<in>set post. in_reach x y rng a \<longrightarrow> enemy_dist x y e \<le> enemy_dist x y a"
        by auto
      from far p(4) have "in_reach x y rng a \<longrightarrow> enemy_dist x y e < enemy_dist x y a"
        by fastforce
      with step p have "?pick (a # es) best bestD"
        by (intro exI[of _ "a # pre"] exI[of _ e] exI[of _ post]) simp
      then show ?thesis ..
    qed
  qed
qed

lemma findNearestEnemy_None:
  "findNearestEnemy x y rng es = None \<longleftrightarrow> (\<forall>e\<in>set es. \<not> in_reach x y rng e)"
  using findNearestEnemy_loop_spec [of x y rng es None None]
  by (auto simp: findNearestEnemy_def)

lemma findNearestEnemy_Some:
  "findNearestEnemy x y rng es = Some e \<Longrightarrow>
     in_reach x y rng e \<and>
     (\<exists>pre post. es = pre @ e # post
        \<and> (\<forall>a\<in>set pre. in_reach x y rng a \<longrightarrow> enemy_dist x y e < enemy_dist x y a)
        \<and> (\<forall>a\<in>set post. in_reach x y rng a \<longrightarrow> enemy_dist x y e \<le> enemy_dist x y a))"
  using findNearestEnemy_loop_spec [of x y rng es None None]
  by (auto simp: findNearestEnemy_def)

subsection \<open>Currency over a sequence of calls\<close>

lemma Enemy_update_cases:
  "alive e \<Longrightarrow>
     (\<exists>e1. Enemy_update dt (g, e) = die (g, e1) \<and> alive e1)
   \<or> (\<exists>e2. Enemy_update dt (g, e) = (g, e2) \<and> alive e2)
   \<or> (\<exists>e2. Enemy_update dt (g, e) = Enemy_move dt (g, e2) \<and> alive e2)"
proof -
  assume live: "alive e"
  define e1 where "e1 = (if bleedTimer e > 0 then
                    let b = e\<lparr>hp := hp e - bleedDps e * dt, bleedTimer := bleedTimer e - dt\<rparr>
                    in (if bleedTimer b \<le> 0 then b\<lparr>bleedDps := 0\<rparr> else b)
                  else e)"
  define e2 where "e2 = (if slowTimer e1 > 0 then
                        let sl = e1\<lparr>slowTimer := slowTimer e1 - dt\<rparr>
                        in (if slowTimer sl \<le> 0 then sl\<lparr>slowFactor := 1\<rparr> else sl)
                      else e1)"
  have a1: "alive e1" using live by (simp add: e1_def Let_def)
  have a2: "alive e2" using a1 by (simp add: e2_def Let_def)
  have a3: "alive (e2\<lparr>stunTimer := stunTimer e2 - dt\<rparr>)" using a2 by simp
  have upd: "Enemy_update dt (g, e) =
      (if bleedTimer e > 0 \<and> hp e1 \<le> 0 then die (g, e1)
       else if stunTimer e2 > 0 then (g, e2\<lparr>stunTimer := stunTimer e2 - dt\<rparr>)
       else Enemy_move dt (g, e2))"
    using live by (simp add: Enemy_update_def e1_def e2_def Let_def)
  show ?thesis
  proof (cases "bleedTimer e > 0 \<and> hp e1 \<le> 0")
    case True
    with upd a1 show ?thesis by auto
  next
    case False
    show ?thesis
    proof (cases "stunTimer e2 > 0")
      case True
      with upd False a3 show ?thesis by auto
    next
      case stun: False
      with upd False a2 show ?thesis by auto
    qed
  qed
qed

lemma death_reward_difficulty: "difficulty g' = difficulty g \<Longrightarrow> death_reward g' = death_reward g"
  by (simp add: death_reward_def getDifficultyModifiers_def)

lemma pays_refl: "pays_at_most_once s s"
  by (simp add: pays_at_most_once_def)

lemma pays_trans:
  "pays_at_most_once s s' \<Longrightarrow> pays_at_most_once s' s'' \<Longrightarrow> pays_at_most_once s s''"
  unfolding pays_at_most_once_def
  using death_reward_difficulty [of "fst s'" "fst s"] by auto

lemma pays_die: "pays_at_most_once (g, e) (die (g, e))"
  using die_cases [of g e] by (auto simp: pays_at_most_once_def)

lemma pays_reachEnd: "pays_at_most_once (g, e) (reachEnd (g, e))"
  using reachEnd_cases [of g e] by (auto simp: pays_at_most_once_def)

lemma pays_same_alive: "alive e' = alive e \<Longrightarrow> pays_at_most_once (g, e) (g, e')"
  by (simp add: pays_at_most_once_def)

lemma pays_move: "pays_at_most_once (g, e) (Enemy_move dt (g, e))"
proof -
  from Enemy_move_cases [of dt g e] show ?thesis
  proof (elim disjE exE conjE)
    fix e' assume "Enemy_move dt (g, e) = (g, e')" "alive e' = alive e"
    then show ?thesis by (simp add: pays_same_alive)
  next
    fix e' assume "Enemy_move dt (g, e) = (g, e')" "alive e' = alive e"
    then show ?thesis by (simp add: pays_same_alive)
  next
    fix e1 assume m: "Enemy_move dt (g, e) = reachEnd (g, e1)" "alive e1 = alive e"
    from pays_trans [OF pays_same_alive [OF m(2), of g] pays_reachEnd [of g e1]] m(1)
    show ?thesis by simp
  next
    fix e1 assume m: "Enemy_move dt (g, e) = reachEnd (g, e1)" "alive e1 = alive e"
    from pays_trans [OF pays_same_alive [OF m(2), of g] pays_reachEnd [of g e1]] m(1)
    show ?thesis by simp
  qed
qed

lemma pays_update: "pays_at_most_once (g, e) (Enemy_update dt (g, e))"
proof (cases "alive e")
  case False
  then show ?thesis by (simp add: Enemy_update_dead pays_refl)
next
  case True
  from Enemy_update_cases [OF True, of dt g] show ?thesis
  proof (elim disjE exE conjE)
    fix e1 assume u: "Enemy_update dt (g, e) = die (g, e1)" "alive e1"
    have "alive e1 = alive e" using u True by simp
    from pays_trans [OF pays_same_alive [OF this, of g] pays_die [of g e1]] u(1)
    show ?thesis by simp
  next
    fix e2 assume u: "Enemy_update dt (g, e) = (g, e2)" "alive e2"
    then show ?thesis using True by (simp add: pays_same_alive)
  next
    fix e2 assume u: "Enemy_update dt (g, e) = Enemy_move dt (g, e2)" "alive e2"
    have "alive e2 = alive e" using u True by simp
    from pays_trans [OF pays_same_alive [OF this, of g] pays_move [of g e2 dt]] u(1)
    show ?thesis by simp
  qed
qed

lemma pays_takeDamage: "pays_at_most_once (g, e) (takeDamage d (g, e))"
proof -
  have a: "alive (e\<lparr>hp := hp e - d\<rparr>) = alive e" by simp
  from pays_trans [OF pays_same_alive [OF a, of g] pays_die [of g "e\<lparr>hp := hp e - d\<rparr>"]]
    pays_same_alive [OF a, of g]
  show ?thesis by (simp add: takeDamage_def Let_def)
qed

lemma pays_run_call: "pays_at_most_once s (run_call c s)"
proof (cases s)
  case (Pair g e)
  then show ?thesis
    by (cases c)
      (simp_all add: pays_takeDamage pays_update pays_die pays_same_alive
        applyBleed_def applySlow_def applyStun_def)
qed

lemma pays_run_calls: "pays_at_most_once s (run_calls cs s)"
proof (induction cs arbitrary: s)
  case Nil
  show ?case by (simp add: pays_refl)
next
  case (Cons c cs)
  from pays_trans [OF pays_run_call [of s c] Cons.IH [of "run_call c s"]]
  show ?case by simp
qed

lemmas sample_defs = sample_enemy_def sample_game_def sample_path_def

section \<open>Status effects\<close>

text \<open>
  C6. \<^verbatim>\<open>applyBleed(dps, duration)\<close> sets \<open>bleedDps\<close> to the larger of its
  current value and \<open>dps\<close>, and \<open>bleedTimer\<close> to the larger of its current
  value and \<open>duration\<close>; on a freshly constructed enemy, \<^verbatim>\<open>applyBleed(4, 2)\<close>
  followed by \<^verbatim>\<open>applyBleed(6, 1)\<close> leaves \<open>bleedDps = 6\<close> and
  \<open>bleedTimer = 2\<close>.
\<close>

theorem applyBleed_strongest_wins:
  "bleedDps (applyBleed dps duration e) = max (bleedDps e) dps
   \<and> bleedTimer (applyBleed dps duration e) = max (bleedTimer e) duration
   \<and> (Enemy_new paths idseq hp0 speed pathIdx = Inr fresh \<longrightarrow>
        bleedDps (applyBleed 6 1 (applyBleed 4 2 fresh)) = 6
        \<and> bleedTimer (applyBleed 6 1 (applyBleed 4 2 fresh)) = 2)"
  by (auto simp: applyBleed_def Enemy_new_def split: if_splits list.splits)

theorem applyBleed_strongest_wins_witness:
  "Enemy_new [sample_path] 1 30 50 0 = Inr sample_enemy
   \<and> bleedDps (applyBleed 6 1 (applyBleed 4 2 sample_enemy)) = 6
   \<and> bleedTimer (applyBleed 6 1 (applyBleed 4 2 sample_enemy)) = 2"
proof -
  have fresh: "Enemy_new [sample_path] 1 30 50 0 = Inr sample_enemy"
    by (simp add: Enemy_new_def sample_path_def sample_enemy_def)
  from applyBleed_strongest_wins [THEN conjunct2, THEN conjunct2, THEN mp, OF fresh] fresh
  show ?thesis by simp
qed

text \<open>
  C3. The status invariant (\<open>bleedTimer \<le> 0\<close> implies \<open>bleedDps = 0\<close>, and
  \<open>slowTimer \<le> 0\<close> implies \<open>slowFactor = 1\<close>) holds for a freshly constructed
  enemy and is kept by \<^verbatim>\<open>update\<close>, \<^verbatim>\<open>applyStun\<close>, \<^verbatim>\<open>knockback\<close> and
  \<^verbatim>\<open>takeDamage\<close> for all arguments, and by \<^verbatim>\<open>applyBleed\<close> and
  \<^verbatim>\<open>applySlow\<close> whenever the duration passed is strictly positive.
\<close>

theorem status_inv_preserved:
  "(Enemy_new paths idseq hp0 speed pathIdx = Inr e0 \<longrightarrow> status_inv e0)
   \<and> (status_inv e \<longrightarrow>
        status_inv (snd (Enemy_update dt (g, e)))
      \<and> (0 < duration \<longrightarrow> status_inv (applyBleed dps duration e))
      \<and> (0 < duration \<longrightarrow> status_inv (applySlow factor duration e))
      \<and> status_inv (applyStun duration e)
      \<and> (\<forall>e'. knockback distance e = Inr e' \<longrightarrow> status_inv e')
      \<and> status_inv (snd (takeDamage dmg (g, e))))"
  by (intro conjI impI allI)
     (simp_all add: status_inv_new status_inv_update status_inv_applyBleed status_inv_applySlow
        status_inv_applyStun status_inv_knockback status_inv_takeDamage)

theorem status_inv_preserved_witness:
  "Enemy_new [sample_path] 1 30 50 0 = Inr sample_enemy
   \<and> status_inv sample_enemy
   \<and> status_inv enemy_stunned
   \<and> status_inv (snd (Enemy_update 1 (sample_game, enemy_stunned)))
   \<and> (0::real) < 3
   \<and> status_inv (applyBleed 6 3 enemy_stunned)
   \<and> status_inv (applySlow (1 / 4) 3 enemy_stunned)
   \<and> status_inv (applyStun 3 enemy_stunned)
   \<and> knockback 10 enemy_stunned = Inr enemy_stunned
   \<and> status_inv (snd (takeDamage 10 (sample_game, enemy_stunned)))"
proof -
  have fresh: "Enemy_new [sample_path] 1 30 50 0 = Inr sample_enemy"
    by (simp add: Enemy_new_def sample_path_def sample_enemy_def)
  have inv: "status_inv enemy_stunned"
    by (simp add: status_inv_def enemy_stunned_def sample_enemy_def)
  have kb: "knockback 10 enemy_stunned = Inr enemy_stunned"
    by (simp add: knockback_def enemy_stunned_def sample_enemy_def)
  have pos: "(0::real) < 3" by simp
  note inst = status_inv_preserved [of "[sample_path]" 1 30 50 0 sample_enemy enemy_stunned
      1 sample_game 3 6 "1 / 4" 10 10]
  from inst fresh inv kb pos show ?thesis by blast
qed

text \<open>
  With a duration of zero, which the documented range \<open>duration \<ge> 0\<close> admits, both
  \<^verbatim>\<open>applyBleed(5, 0)\<close> and \<^verbatim>\<open>applySlow(0.5, 0)\<close> on a fresh enemy leave an
  effect in force whose timer is not running.
\<close>

theorem status_inv_counterexample:
  "status_inv sample_enemy \<and> (0::real) \<le> 5 \<and> (0::real) \<le> 0
   \<and> \<not> status_inv (applyBleed 5 0 sample_enemy)
   \<and> \<not> status_inv (applySlow (1 / 2) 0 sample_enemy)"
  by (simp add: status_inv_def applyBleed_def applySlow_def sample_enemy_def)

text \<open>
  C5. A living enemy with \<open>stunTimer > 0\<close> keeps its position and waypoint index
  over one \<^verbatim>\<open>update(dt)\<close> with \<open>dt > 0\<close>. When \<open>bleedTimer > 0\<close>, the bleed
  damage \<open>bleedDps * dt\<close> is taken from \<open>hp\<close> and \<open>bleedTimer\<close> decreases by
  \<open>dt\<close>. Provided that bleed tick does not bring \<open>hp\<close> to zero or below,
  \<open>stunTimer\<close> decreases by \<open>dt\<close>, and so does \<open>slowTimer\<close> when it is positive.
\<close>

theorem stunned_update:
  assumes "alive e" and "0 < stunTimer e" and "0 < dt"
    and "Enemy_update dt (g, e) = (g', e')"
  shows "pos_x e' = pos_x e \<and> pos_y e' = pos_y e \<and> waypoint e' = waypoint e
    \<and> (0 < bleedTimer e \<longrightarrow>
          hp e' = hp e - bleedDps e * dt \<and> bleedTimer e' = bleedTimer e - dt
          \<and> bleedTimer e' < bleedTimer e)
    \<and> (\<not> (0 < bleedTimer e \<and> hp e - bleedDps e * dt \<le> 0) \<longrightarrow>
          stunTimer e' = stunTimer e - dt \<and> stunTimer e' < stunTimer e
          \<and> (0 < slowTimer e \<longrightarrow> slowTimer e' = slowTimer e - dt \<and> slowTimer e' < slowTimer e))"
  using assms by (auto simp: Enemy_update_def Let_def die_def split: if_splits)

theorem stunned_update_witness:
  "alive enemy_stunned \<and> 0 < stunTimer enemy_stunned \<and> (0::real) < 1 / 2
   \<and> Enemy_update (1 / 2) (sample_game, enemy_stunned)
       = (sample_game, enemy_stunned\<lparr>hp := 28, bleedTimer := 3 / 2, slowTimer := 1 / 2,
                                      stunTimer := 1 / 2\<rparr>)
   \<and> 0 < bleedTimer enemy_stunned \<and> 0 < slowTimer enemy_stunned
   \<and> \<not> (0 < bleedTimer enemy_stunned \<and> hp enemy_stunned - bleedDps enemy_stunned * (1 / 2) \<le> 0)
   \<and> pos_x (enemy_stunned\<lparr>hp := 28, bleedTimer := 3 / 2, slowTimer := 1 / 2, stunTimer := 1 / 2\<rparr>)
       = pos_x enemy_stunned"
proof -
  have a: "alive enemy_stunned" "0 < stunTimer enemy_stunned" "(0::real) < 1 / 2"
    by (simp_all add: enemy_stunned_def sample_enemy_def)
  have u: "Enemy_update (1 / 2) (sample_game, enemy_stunned)
       = (sample_game, enemy_stunned\<lparr>hp := 28, bleedTimer := 3 / 2, slowTimer := 1 / 2,
                                      stunTimer := 1 / 2\<rparr>)"
    by (simp add: Enemy_update_def Let_def enemy_stunned_def sample_enemy_def)
  have b: "0 < bleedTimer enemy_stunned" "0 < slowTimer enemy_stunned"
     "\<not> (0 < bleedTimer enemy_stunned \<and> hp enemy_stunned - bleedDps enemy_stunned * (1 / 2) \<le> 0)"
    by (simp_all add: enemy_stunned_def sample_enemy_def)
  from stunned_update [OF a u] a u b show ?thesis by simp
qed

text \<open>
  When the bleed tick kills the enemy, \<^verbatim>\<open>update\<close> returns right after
  \<^verbatim>\<open>die()\<close>: the stun and slow timers, both positive, are left as they were.
\<close>

theorem stunned_update_counterexample:
  "alive enemy_bleeding_out \<and> 0 < stunTimer enemy_bleeding_out
   \<and> 0 < slowTimer enemy_bleeding_out \<and> (0::real) < 1 / 2
   \<and> stunTimer (snd (Enemy_update (1 / 2) (sample_game, enemy_bleeding_out)))
       = stunTimer enemy_bleeding_out
   \<and> slowTimer (snd (Enemy_update (1 / 2) (sample_game, enemy_bleeding_out)))
       = slowTimer enemy_bleeding_out"
  by (simp add: Enemy_update_def Let_def die_def enemy_bleeding_out_def sample_enemy_def)

section \<open>Knockback\<close>

text \<open>
  C2. At waypoint index 0, \<^verbatim>\<open>knockback(d)\<close> returns at once and leaves the enemy
  as it is: the enemy is not pushed at all, so it does not end up past 90% of
  the distance it has travelled on the first segment.
\<close>

theorem knockback_at_start:
  "waypoint e \<le> 0 \<Longrightarrow> knockback distance e = Inr e"
  by (simp add: knockback_def)

theorem knockback_at_start_witness:
  "waypoint enemy_on_first_segment \<le> 0
   \<and> knockback 10 enemy_on_first_segment = Inr enemy_on_first_segment"
proof -
  have w: "waypoint enemy_on_first_segment \<le> 0"
    by (simp add: enemy_on_first_segment_def sample_enemy_def)
  from knockback_at_start [OF w, of 10] w show ?thesis by simp
qed

text \<open>
  An enemy 50 pixels along the first segment, knocked back by 10, is not moved
  back by \<open>min 10 (0.9 * 50)\<close>: it stays where it is.
\<close>

theorem knockback_at_start_counterexample:
  "waypoint enemy_on_first_segment = 0
   \<and> path_at (path enemy_on_first_segment) 0 = Some \<lparr>pt_x = 0, pt_y = 0\<rparr>
   \<and> path_at (path enemy_on_first_segment) 1 = Some \<lparr>pt_x = 100, pt_y = 0\<rparr>
   \<and> pos_x enemy_on_first_segment = 50 \<and> pos_y enemy_on_first_segment = 0
   \<and> knockback 10 enemy_on_first_segment = Inr enemy_on_first_segment
   \<and> knockback 10 enemy_on_first_segment
       \<noteq> Inr (enemy_on_first_segment\<lparr>pos_x := 50 - min 10 (0.9 * 50)\<rparr>)"
proof -
  have "pos_x (enemy_on_first_segment\<lparr>pos_x := 50 - min 10 (0.9 * 50)\<rparr>)
          \<noteq> pos_x enemy_on_first_segment"
    by (simp add: enemy_on_first_segment_def sample_enemy_def)
  then have "enemy_on_first_segment\<lparr>pos_x := 50 - min 10 (0.9 * 50)\<rparr> \<noteq> enemy_on_first_segment"
    by metis
  then show ?thesis
    by (simp add: knockback_def path_at_def enemy_on_first_segment_def sample_enemy_def
        sample_path_def)
qed

section \<open>Reaching the end of the path\<close>

text \<open>
  C7. When one \<^verbatim>\<open>update\<close> of a living enemy advances its waypoint index by one
  to the last point of its path, \<open>lives\<close> decreases by exactly 1, the enemy is
  no longer alive, and every later \<^verbatim>\<open>update\<close> leaves the enemy and the globals
  as they are.
\<close>

theorem reach_end:
  assumes "alive e" and "Enemy_update dt (g, e) = (g', e')"
    and "waypoint e' = waypoint e + 1" and "waypoint e' = int (length (path e)) - 1"
  shows "lives g' = lives g - 1 \<and> \<not> alive e'
         \<and> (\<forall>dt2 g2. Enemy_update dt2 (g2, e') = (g2, e'))"
proof -
  define e1 where "e1 = (if bleedTimer e > 0 then
                    let b = e\<lparr>hp := hp e - bleedDps e * dt, bleedTimer := bleedTimer e - dt\<rparr>
                    in (if bleedTimer b \<le> 0 then b\<lparr>bleedDps := 0\<rparr> else b)
                  else e)"
  define e2 where "e2 = (if slowTimer e1 > 0 then
                        let sl = e1\<lparr>slowTimer := slowTimer e1 - dt\<rparr>
                        in (if slowTimer sl \<le> 0 then sl\<lparr>slowFactor := 1\<rparr> else sl)
                      else e1)"
  have f1: "waypoint e1 = waypoint e" "alive e1" "path e1 = path e"
    using assms(1) by (simp_all add: e1_def Let_def)
  have f2: "waypoint e2 = waypoint e" "alive e2" "path e2 = path e"
    using f1 by (simp_all add: e2_def Let_def)
  have upd: "Enemy_update dt (g, e) =
      (if bleedTimer e > 0 \<and> hp e1 \<le> 0 then die (g, e1)
       else if stunTimer e2 > 0 then (g, e2\<lparr>stunTimer := stunTimer e2 - dt\<rparr>)
       else Enemy_move dt (g, e2))"
    using assms(1) by (simp add: Enemy_update_def e1_def e2_def Let_def)
  have mv: "Enemy_move dt (g, e2) = (g', e')"
    using assms(2,3) upd f1 f2 die_cases[of g e1] by (auto split: if_splits)
  from Enemy_move_cases[of dt g e2] mv assms(3,4) f2
  obtain e3 where "reachEnd (g, e3) = (g', e')" "alive e3"
    by auto
  then have "lives g' = lives g - 1 \<and> \<not> alive e'"
    using reachEnd_cases[of g e3] by auto
  then show ?thesis by (simp add: Enemy_update_dead)
qed

theorem reach_end_witness:
  "alive enemy_near_end
   \<and> Enemy_update (1 / 60) (sample_game, enemy_near_end)
       = (sample_game\<lparr>lives := 19\<rparr>,
          enemy_near_end\<lparr>pos_x := 100, pos_y := 100, waypoint := 2, alive := False\<rparr>)
   \<and> waypoint (enemy_near_end\<lparr>pos_x := 100, pos_y := 100, waypoint := 2, alive := False\<rparr>)
       = waypoint enemy_near_end + 1
   \<and> waypoint (enemy_near_end\<lparr>pos_x := 100, pos_y := 100, waypoint := 2, alive := False\<rparr>)
       = int (length (path enemy_near_end)) - 1
   \<and> lives (sample_game\<lparr>lives := 19\<rparr>) = lives sample_game - 1
   \<and> Enemy_update (1 / 60) (sample_game\<lparr>lives := 19\<rparr>,
          enemy_near_end\<lparr>pos_x := 100, pos_y := 100, waypoint := 2, alive := False\<rparr>)
       = (sample_game\<lparr>lives := 19\<rparr>,
          enemy_near_end\<lparr>pos_x := 100, pos_y := 100, waypoint := 2, alive := False\<rparr>)"
proof -
  have a: "alive enemy_near_end"
    by (simp add: enemy_near_end_def sample_enemy_def)
  have u: "Enemy_update (1 / 60) (sample_game, enemy_near_end)
       = (sample_game\<lparr>lives := 19\<rparr>,
          enemy_near_end\<lparr>pos_x := 100, pos_y := 100, waypoint := 2, alive := False\<rparr>)"
    by (simp add: Enemy_update_def Enemy_move_def reachEnd_def nextTarget_def path_at_def
        hypot_zero_left Let_def enemy_near_end_def sample_enemy_def sample_path_def
        sample_game_def)
  have w: "waypoint (enemy_near_end\<lparr>pos_x := 100, pos_y := 100, waypoint := 2, alive := False\<rparr>)
       = waypoint enemy_near_end + 1"
     "waypoint (enemy_near_end\<lparr>pos_x := 100, pos_y := 100, waypoint := 2, alive := False\<rparr>)
       = int (length (path enemy_near_end)) - 1"
    by (simp_all add: enemy_near_end_def sample_enemy_def sample_path_def)
  from reach_end [OF a u w] a u w show ?thesis by simp
qed

section \<open>Wave size\<close>




section \<open>Pierce bolt\<close>

text \<open>
  C4. A living bolt with \<open>pierce = 2\<close>, flying at the spike tower's speed towards
  three living enemies that stand close together, does not damage the first
  two of them once each. Its first \<^verbatim>\<open>update\<close> brings it into contact with
  \<open>target_a\<close> alone, which takes the damage. After the move of the second
  \<^verbatim>\<open>update\<close> it is in contact with all three; \<open>target_a\<close>, first in the
  list, takes the damage again and the bolt stops. \<open>target_a\<close> has been hit
  twice, \<open>target_b\<close> and \<open>target_c\<close> not at all.
\<close>

theorem pierce_bolt_rehits_enemy:
  "sp_pierce sample_bolt = 2 \<and> sp_alive sample_bolt \<and> sp_speed sample_bolt = 520
   \<and> SpikeProjectile_update (1 / 60) (sample_game, sample_bolt, bolt_targets)
       = (sample_game, sample_bolt\<lparr>sp_x := 326 / 3, sp_pierce := 1\<rparr>,
          [target_a\<lparr>hp := 82\<rparr>, target_b, target_c])
   \<and> spike_contact (sample_bolt\<lparr>sp_x := 352 / 3\<rparr>) target_a
   \<and> spike_contact (sample_bolt\<lparr>sp_x := 352 / 3\<rparr>) target_b
   \<and> spike_contact (sample_bolt\<lparr>sp_x := 352 / 3\<rparr>) target_c
   \<and> SpikeProjectile_update (1 / 60)
        (SpikeProjectile_update (1 / 60) (sample_game, sample_bolt, bolt_targets))
       = (sample_game, sample_bolt\<lparr>sp_x := 352 / 3, sp_pierce := 0, sp_alive := False\<rparr>,
          [target_a\<lparr>hp := 64\<rparr>, target_b, target_c])
   \<and> hp target_a - 2 * sp_damage sample_bolt = 64
   \<and> hp target_b = 100 \<and> hp target_c = 100"
proof -
  have t1: "SpikeProjectile_update (1 / 60) (sample_game, sample_bolt, bolt_targets)
       = (sample_game, sample_bolt\<lparr>sp_x := 326 / 3, sp_pierce := 1\<rparr>,
          [target_a\<lparr>hp := 82\<rparr>, target_b, target_c])"
    by (simp add: SpikeProjectile_update_def spike_advance_def takeDamage_def
          hypot_zero_right Let_def bolt_targets_def target_a_def target_b_def target_c_def
          sample_bolt_def sample_enemy_def sample_game_def)
  have t2: "SpikeProjectile_update (1 / 60)
        (sample_game, sample_bolt\<lparr>sp_x := 326 / 3, sp_pierce := 1\<rparr>,
          [target_a\<lparr>hp := 82\<rparr>, target_b, target_c])
       = (sample_game, sample_bolt\<lparr>sp_x := 352 / 3, sp_pierce := 0, sp_alive := False\<rparr>,
          [target_a\<lparr>hp := 64\<rparr>, target_b, target_c])"
    by (simp add: SpikeProjectile_update_def spike_advance_def takeDamage_def
          hypot_zero_right Let_def target_a_def target_b_def target_c_def
          sample_bolt_def sample_enemy_def sample_game_def)
  have h: "hp target_a - 2 * sp_damage sample_bolt = 64" "sp_pierce sample_bolt = 2"
     "sp_alive sample_bolt" "sp_speed sample_bolt = 520" "hp target_b = 100" "hp target_c = 100"
    by (simp_all add: target_a_def target_b_def target_c_def sample_bolt_def sample_enemy_def)
  from t1 t2 h contact_a contact_b contact_c show ?thesis by simp
qed

section \<open>Pausing\<close>

text \<open>
  C1. With \<open>gameSpeed = 0\<close> the enemy and pool updates are not frozen. One
  \<^verbatim>\<open>update\<close> of a stunned, slowed, bleeding enemy still takes the bleed damage
  from \<open>hp\<close> and runs \<open>bleedTimer\<close>, \<open>slowTimer\<close> and \<open>stunTimer\<close> down by
  \<open>dt\<close>; an enemy within 2 pixels of its next waypoint still snaps to it and
  advances its waypoint index; and \<^verbatim>\<open>AcidPool.update\<close> still counts its
  lifetime down by \<open>dt\<close> and damages and slows the enemy standing in it.
\<close>

theorem pause_does_not_freeze:
  "gameSpeed paused_game = 0
   \<and> Enemy_update (1 / 2) (paused_game, enemy_stunned)
       = (paused_game, enemy_stunned\<lparr>hp := 28, bleedTimer := 3 / 2, slowTimer := 1 / 2,
                                      stunTimer := 1 / 2\<rparr>)
   \<and> Enemy_update (1 / 60) (paused_game, enemy_near_corner)
       = (paused_game, enemy_near_corner\<lparr>pos_x := 100, waypoint := 1\<rparr>)
   \<and> AcidPool_update (1 / 2) (paused_game, sample_pool, [sample_enemy])
       = (paused_game, sample_pool\<lparr>pool_timer := 1 / 2\<rparr>,
          [sample_enemy\<lparr>hp := 55 / 2, slowFactor := 3 / 5, slowTimer := 1 / 2\<rparr>])"
proof -
  have a: "Enemy_update (1 / 2) (paused_game, enemy_stunned)
       = (paused_game, enemy_stunned\<lparr>hp := 28, bleedTimer := 3 / 2, slowTimer := 1 / 2,
                                      stunTimer := 1 / 2\<rparr>)"
    by (simp add: Enemy_update_def Let_def enemy_stunned_def sample_enemy_def)
  have b: "Enemy_update (1 / 60) (paused_game, enemy_near_corner)
       = (paused_game, enemy_near_corner\<lparr>pos_x := 100, waypoint := 1\<rparr>)"
    by (simp add: Enemy_update_def Enemy_move_def validatePosition_def nextTarget_def
        currentWaypoint_def path_at_def hypot_zero_right hypot_zero_left Let_def
        enemy_near_corner_def paused_game_def sample_defs)
  have c: "AcidPool_update (1 / 2) (paused_game, sample_pool, [sample_enemy])
       = (paused_game, sample_pool\<lparr>pool_timer := 1 / 2\<rparr>,
          [sample_enemy\<lparr>hp := 55 / 2, slowFactor := 3 / 5, slowTimer := 1 / 2\<rparr>])"
    by (simp add: AcidPool_update_def AcidPool_touch_def applySlow_def hypot_zero_right Let_def
        sample_pool_def sample_enemy_def)
  have d: "gameSpeed paused_game = 0"
    by (simp add: paused_game_def)
  from a b c d show ?thesis by simp
qed

section \<open>Targeting\<close>

text \<open>
  C9. \<^verbatim>\<open>findNearestEnemy\<close> returns nothing exactly when no living enemy of the
  list lies within range. Otherwise it returns a living enemy within range,
  standing in the list at a place such that every living in-range enemy before
  it is strictly farther from the query point and every one after it is at
  least as far: a nearest one, and the earliest of those in iteration order.
\<close>

theorem findNearestEnemy_nearest:
  "(findNearestEnemy x y rng es = None \<longleftrightarrow> (\<forall>e\<in>set es. \<not> in_reach x y rng e))
   \<and> (\<forall>e. findNearestEnemy x y rng es = Some e \<longrightarrow>
        in_reach x y rng e
        \<and> (\<exists>pre post. es = pre @ e # post
             \<and> (\<forall>a\<in>set pre. in_reach x y rng a \<longrightarrow> enemy_dist x y e < enemy_dist x y a)
             \<and> (\<forall>a\<in>set post. in_reach x y rng a \<longrightarrow> enemy_dist x y e \<le> enemy_dist x y a)))"
  using findNearestEnemy_None [of x y rng es] findNearestEnemy_Some [of x y rng es]
  by blast

theorem findNearestEnemy_nearest_witness:
  "findNearestEnemy 0 0 5 [target_dead, target_east, target_south, target_far] = Some target_east
   \<and> in_reach 0 0 5 target_east
   \<and> enemy_dist 0 0 target_east = 3 \<and> enemy_dist 0 0 target_south = 3
   \<and> findNearestEnemy 0 0 5 [target_dead, target_far] = None
   \<and> \<not> in_reach 0 0 5 target_dead \<and> \<not> in_reach 0 0 5 target_far"
proof -
  have f: "findNearestEnemy 0 0 5 [target_dead, target_east, target_south, target_far]
       = Some target_east"
    by (simp add: findNearestEnemy_def hypot_zero_right hypot_zero_left Let_def
        target_dead_def target_east_def target_south_def target_far_def sample_enemy_def)
  have n: "findNearestEnemy 0 0 5 [target_dead, target_far] = None"
    by (simp add: findNearestEnemy_def hypot_zero_right hypot_zero_left Let_def
        target_dead_def target_far_def sample_enemy_def)
  have d: "enemy_dist 0 0 target_east = 3" "enemy_dist 0 0 target_south = 3"
    by (simp_all add: enemy_dist_def hypot_zero_right hypot_zero_left
        target_east_def target_south_def sample_enemy_def)
  from findNearestEnemy_nearest [of 0 0 5 "[target_dead, target_east, target_south, target_far]"]
    f have r: "in_reach 0 0 5 target_east" by blast
  from findNearestEnemy_nearest [of 0 0 5 "[target_dead, target_far]"] n
  have "\<not> in_reach 0 0 5 target_dead \<and> \<not> in_reach 0 0 5 target_far" by simp
  with f n d r show ?thesis by simp
qed

section \<open>Death reward\<close>

text \<open>
  C10. \<^verbatim>\<open>die()\<close> on an enemy that is not alive changes neither the enemy nor
  the globals. Over any sequence of \<^verbatim>\<open>takeDamage\<close>, \<^verbatim>\<open>update\<close> (with its
  bleed tick), \<^verbatim>\<open>die\<close> and status calls on one enemy, \<open>money\<close> ends either
  unchanged or higher by the death reward, once; if the enemy was not alive at
  the start it ends unchanged.
\<close>

theorem die_idempotent:
  "(\<not> alive e \<longrightarrow> die (g, e) = (g, e))
   \<and> (run_calls cs (g, e) = (g', e') \<longrightarrow>
        (money g' = money g \<or> money g' = money g + death_reward g)
        \<and> (\<not> alive e \<longrightarrow> money g' = money g))"
  using pays_run_calls [of "(g, e)" cs]
  by (auto simp: pays_at_most_once_def die_def)

theorem die_idempotent_witness:
  "run_calls [CallTakeDamage 20, CallTakeDamage 20, CallTakeDamage 20, CallDie, CallUpdate 1]
       (sample_game, sample_enemy)
     = (sample_game\<lparr>money := 110\<rparr>, sample_enemy\<lparr>hp := - 30, alive := False\<rparr>)
   \<and> money (sample_game\<lparr>money := 110\<rparr>) = money sample_game + death_reward sample_game
   \<and> \<not> alive (sample_enemy\<lparr>hp := - 30, alive := False\<rparr>)
   \<and> die (sample_game\<lparr>money := 110\<rparr>, sample_enemy\<lparr>hp := - 30, alive := False\<rparr>)
     = (sample_game\<lparr>money := 110\<rparr>, sample_enemy\<lparr>hp := - 30, alive := False\<rparr>)"
proof -
  have r: "run_calls [CallTakeDamage 20, CallTakeDamage 20, CallTakeDamage 20, CallDie, CallUpdate 1]
       (sample_game, sample_enemy)
     = (sample_game\<lparr>money := 110\<rparr>, sample_enemy\<lparr>hp := - 30, alive := False\<rparr>)"
    by (simp add: takeDamage_def die_def Enemy_update_def getDifficultyModifiers_def
        Math_round_def Let_def sample_game_def sample_enemy_def)
  have m: "money (sample_game\<lparr>money := 110\<rparr>) = money sample_game + death_reward sample_game"
    by (simp add: death_reward_def getDifficultyModifiers_def Math_round_def sample_game_def)
  have dead: "\<not> alive (sample_enemy\<lparr>hp := - 30, alive := False\<rparr>)"
    by simp
  from die_idempotent [where e = "sample_enemy\<lparr>hp := - 30, alive := False\<rparr>"
      and g = "sample_game\<lparr>money := 110\<rparr>", THEN conjunct1, THEN mp, OF dead]
    die_idempotent [where cs = "[CallTakeDamage 20, CallTakeDamage 20, CallTakeDamage 20,
      CallDie, CallUpdate 1]" and g = sample_game and e = sample_enemy,
      THEN conjunct2, THEN mp, OF r]
    r m dead
  show ?thesis by simp
qed

end
